theory Spec2Isabelle
  imports Main
begin

section \<open>Text: Python strings as lists of code points\<close>

text \<open>
  A Python \<^verbatim>\<open>str\<close> is a sequence of Unicode code points. The type \<^typ>\<open>char\<close> of HOL has
  only 256 values, so a string is modelled as a list of code points (natural numbers);
  \<open>ustr\<close> embeds an ASCII literal.
\<close>

type_synonym ustring = "nat list"

definition ustr :: "string \<Rightarrow> ustring" where
  "ustr s = map of_char s"

text \<open>
  \<^verbatim>\<open>str.isspace\<close>, which decides what \<^verbatim>\<open>str.strip()\<close> removes and what \<^verbatim>\<open>\s\<close> matches in a
  \<^verbatim>\<open>str\<close> pattern: U+0009..U+000D, U+001C..U+0020, U+0085, U+00A0, U+1680, U+2000..U+200A,
  U+2028, U+2029, U+202F, U+205F, U+3000.
\<close>

definition isspace :: "nat \<Rightarrow> bool" where
  "isspace c \<longleftrightarrow>
     (9 \<le> c \<and> c \<le> 13) \<or> (28 \<le> c \<and> c \<le> 32) \<or> c = 133 \<or> c = 160 \<or> c = 5760 \<or>
     (8192 \<le> c \<and> c \<le> 8202) \<or> c = 8232 \<or> c = 8233 \<or> c = 8239 \<or> c = 8287 \<or> c = 12288"

text \<open>
  What \<^verbatim>\<open>\d\<close> matches in a \<^verbatim>\<open>str\<close> pattern: the code points of general category Nd. They
  come in runs of ten starting at a digit zero (listed in \<open>decimal_zeros\<close>, Unicode 14), and
  the fifty mathematical digits U+1D7CE..U+1D7FF.
\<close>

definition decimal_zeros :: "nat list" where
  "decimal_zeros =
     [48, 1632, 1776, 1984, 2406, 2534, 2662, 2790, 2918, 3046, 3174, 3302, 3430, 3558,
      3664, 3792, 3872, 4160, 4240, 6112, 6160, 6470, 6608, 6784, 6800, 6992, 7088, 7232,
      7248, 42528, 43216, 43264, 43472, 43504, 43600, 44016, 65296, 66720, 68912, 69734,
      69872, 69942, 70096, 70384, 70736, 70864, 71248, 71360, 71472, 71904, 72016, 72784,
      73040, 73120, 92768, 92864, 93008, 123200, 123632, 125264, 130032]"

definition isdecimal :: "nat \<Rightarrow> bool" where
  "isdecimal c \<longleftrightarrow>
     list_ex (\<lambda>z. z \<le> c \<and> c < z + 10) decimal_zeros \<or> (120782 \<le> c \<and> c \<le> 120831)"

text \<open>\<^verbatim>\<open>s.strip()\<close>: whitespace is dropped at both ends.\<close>

definition strip :: "ustring \<Rightarrow> ustring" where
  "strip s = rev (dropWhile isspace (rev (dropWhile isspace s)))"

text \<open>
  \<^verbatim>\<open>s.replace(old, new)\<close>: the occurrences of \<open>old\<close> are found scanning from the left, each
  search resuming after the previous occurrence, and every one of them is replaced. With
  an empty \<open>old\<close>, \<open>new\<close> is inserted before every code point and at the end.
\<close>

function replace_from :: "ustring \<Rightarrow> ustring \<Rightarrow> ustring \<Rightarrow> ustring" where
  "replace_from old new [] = []"
| "replace_from old new (c # cs) =
     (if old \<noteq> [] \<and> take (length old) (c # cs) = old
      then new @ replace_from old new (drop (length old) (c # cs))
      else c # replace_from old new cs)"
  by pat_completeness auto
termination
  by (relation "measure (\<lambda>(old, new, s). length s)") auto

definition replace :: "ustring \<Rightarrow> ustring \<Rightarrow> ustring \<Rightarrow> ustring" where
  "replace s old new =
     (if old = [] then new @ concat (map (\<lambda>c. c # new) s) else replace_from old new s)"

text \<open>\<^verbatim>\<open>s.split(sep)\<close> for a separator of one code point; the result is never empty.\<close>

fun split :: "ustring \<Rightarrow> nat \<Rightarrow> ustring list" where
  "split [] sep = [[]]"
| "split (c # cs) sep =
     (if c = sep then [] # split cs sep
      else (case split cs sep of w # ws \<Rightarrow> (c # w) # ws | [] \<Rightarrow> [[c]]))"

text \<open>\<^verbatim>\<open>sep.join(parts)\<close>.\<close>

fun join :: "ustring \<Rightarrow> ustring list \<Rightarrow> ustring" where
  "join sep [] = []"
| "join sep [x] = x"
| "join sep (x # y # ys) = x @ sep @ join sep (y # ys)"

section \<open>The text normalizer\<close>

text \<open>
  The dictionary \<^verbatim>\<open>replacements\<close> of \<^verbatim>\<open>clean_text\<close>, in insertion order, which is the order
  in which the loop over \<^verbatim>\<open>replacements.items()\<close> visits it.
\<close>

definition replacements :: "(nat \<times> ustring) list" where
  "replacements =
     [(0x2013, [0x2D]), (0x2014, [0x2D]), (0x2019, [0x27]), (0x2018, [0x27]),
      (0x201C, [0x22]), (0x201D, [0x22]), (0x2026, [0x2E, 0x2E, 0x2E])]"

text \<open>
  \<^verbatim>\<open>clean_text\<close> on a \<^verbatim>\<open>str\<close>: the empty string is returned at once, otherwise the
  replacements are applied one after the other.
\<close>

definition clean_str :: "ustring \<Rightarrow> ustring" where
  "clean_str text =
     (if text = [] then text
      else foldl (\<lambda>t (unicode_char, ascii_char). replace t [unicode_char] ascii_char)
             text replacements)"

text \<open>
  \<^verbatim>\<open>clean_text\<close> itself also accepts \<^verbatim>\<open>None\<close>, which \<^verbatim>\<open>if not text\<close> returns unchanged.
\<close>

definition clean_text :: "ustring option \<Rightarrow> ustring option" where
  "clean_text text = (case text of None \<Rightarrow> None | Some s \<Rightarrow> Some (clean_str s))"

text \<open>
  The code points the normalizer targets (en dash, em dash, the single and the double
  quotation marks, the horizontal ellipsis), and what each code point becomes: a hyphen
  U+002D, an apostrophe U+0027, a straight double quote U+0022, three periods U+002E.
\<close>

definition targeted :: "nat set" where
  "targeted = {0x2013, 0x2014, 0x2018, 0x2019, 0x201C, 0x201D, 0x2026}"

definition ascii_of :: "nat \<Rightarrow> ustring" where
  "ascii_of c =
     (if c = 0x2013 \<or> c = 0x2014 then [0x2D]
      else if c = 0x2018 \<or> c = 0x2019 then [0x27]
      else if c = 0x201C \<or> c = 0x201D then [0x22]
      else if c = 0x2026 then [0x2E, 0x2E, 0x2E]
      else [c])"

section \<open>The parsed document\<close>

text \<open>
  The extractor works on the tree that the HTML parser builds. A node is a string or a tag
  with its name, the list of its classes and its children. Only what the extractor asks of
  the tree is modelled: the strings are those that \<^verbatim>\<open>get_text\<close> visits (comments and the
  like are left out), and of the attributes only \<^verbatim>\<open>class\<close> is kept.
\<close>

datatype node =
    Text ustring
  | Element ustring "ustring list" "node list"

text \<open>\<^verbatim>\<open>tag.descendants\<close>: every node below the tag, in document order.\<close>

fun descendants :: "node \<Rightarrow> node list" where
  "descendants (Text s) = []"
| "descendants (Element t cl cs) = concat (map (\<lambda>c. c # descendants c) cs)"

text \<open>
  The test of \<^verbatim>\<open>find\<close> and \<^verbatim>\<open>find_all\<close> for a tag name and, when \<^verbatim>\<open>class_\<close> is given, a
  class that is one word: the node is a tag of that name with that class among its own.
\<close>

definition has_marker :: "ustring \<Rightarrow> ustring option \<Rightarrow> node \<Rightarrow> bool" where
  "has_marker tag cls n =
     (case n of
        Text s \<Rightarrow> False
      | Element t cl cs \<Rightarrow>
          t = tag \<and> (case cls of None \<Rightarrow> True | Some c \<Rightarrow> c \<in> set cl))"

definition find_all :: "node \<Rightarrow> ustring \<Rightarrow> ustring option \<Rightarrow> node list" where
  "find_all n tag cls = filter (has_marker tag cls) (descendants n)"

definition find_tag :: "node \<Rightarrow> ustring \<Rightarrow> ustring option \<Rightarrow> node option" where
  "find_tag n tag cls = (case find_all n tag cls of [] \<Rightarrow> None | r # rs \<Rightarrow> Some r)"

text \<open>
  \<^verbatim>\<open>tag.get_text(strip=True)\<close>: every string below the tag is stripped, the empty ones are
  skipped and the others are concatenated with no separator.
\<close>

definition all_strings :: "node \<Rightarrow> ustring list" where
  "all_strings n =
     concat (map (\<lambda>d. case d of Text s \<Rightarrow> [s] | Element t cl cs \<Rightarrow> []) (descendants n))"

definition get_text :: "node \<Rightarrow> ustring" where
  "get_text n = concat (filter (\<lambda>s. s \<noteq> []) (map strip (all_strings n)))"

section \<open>The summary extractor\<close>

definition parse_itinerary_description :: "node \<Rightarrow> ustring list" where
  "parse_itinerary_description soup =
     (case find_tag soup (ustr ''div'') (Some (ustr ''ao-clp-custom-tdp-itinerary__description'')) of
        Some description_elem \<Rightarrow>
          (let text = get_text description_elem;
               text = clean_str text;
               sentences = filter (\<lambda>s. s \<noteq> []) (map strip (split text 0x2E))
           in [join (ustr ''. '') sentences])
      | None \<Rightarrow> [[]])"

section \<open>The day extractor\<close>

record day_info =
  icon :: ustring
  day :: ustring
  title :: ustring
  image :: ustring
  body :: ustring

text \<open>
  The pattern \<^verbatim>\<open>Day (\d+):\<close> tried at the start of \<open>s\<close>. The run of digits is the longest
  one: \<^verbatim>\<open>\d+\<close> is greedy, and giving a digit back never helps, since the colon that must
  follow is no digit. The result is group 1 and what follows the match.
\<close>

definition match_day :: "ustring \<Rightarrow> (ustring \<times> ustring) option" where
  "match_day s =
     (if take 4 s = ustr ''Day '' then
        (let digits = takeWhile isdecimal (drop 4 s);
             rest = dropWhile isdecimal (drop 4 s)
         in if digits \<noteq> [] \<and> take 1 rest = [0x3A] then Some (digits, drop 1 rest) else None)
      else None)"

text \<open>
  \<^verbatim>\<open>re.search(r'Day (\d+):', s)\<close>: the pattern is tried at each position from the left;
  the result is group 1 of the first match.
\<close>

fun re_search_day :: "ustring \<Rightarrow> ustring option" where
  "re_search_day [] = None"
| "re_search_day (c # cs) =
     (case match_day (c # cs) of
        Some (digits, rest) \<Rightarrow> Some digits
      | None \<Rightarrow> re_search_day cs)"

text \<open>
  \<^verbatim>\<open>re.sub(r'^Day \d+:\s*', '', s)\<close>: \<^verbatim>\<open>^\<close> holds at the start of the string only, so there
  is at most one match, and it takes all the whitespace after the colon.
\<close>

definition re_sub_day :: "ustring \<Rightarrow> ustring" where
  "re_sub_day s =
     (case match_day s of
        Some (digits, rest) \<Rightarrow> dropWhile isspace rest
      | None \<Rightarrow> s)"

text \<open>The title text of a title node, as it is when the pattern is searched in it.\<close>

definition title_text_of :: "node \<Rightarrow> ustring" where
  "title_text_of title_elem =
     (let title_text = get_text title_elem;
          title_text =
            (case find_tag title_elem (ustr ''div'') (Some (ustr ''ao-common-accordion__arrow'')) of
               Some arrow_elem \<Rightarrow>
                 (let arrow_text = get_text arrow_elem
                  in strip (replace title_text arrow_text []))
             | None \<Rightarrow> title_text)
      in clean_str title_text)"

text \<open>The body of an item: empty unless the content node is found.\<close>

definition body_of :: "node \<Rightarrow> ustring" where
  "body_of item =
     (case find_tag item (ustr ''div'') (Some (ustr ''ao-common-accordion__bottom-content'')) of
        Some content_elem \<Rightarrow>
          (let paragraphs = find_all content_elem (ustr ''p'') None;
               body_text =
                 (if paragraphs \<noteq> [] then join (ustr '' '') (map get_text paragraphs)
                  else get_text content_elem)
           in clean_str body_text)
      | None \<Rightarrow> [])"

text \<open>
  One pass of the loop body up to the final test: \<open>None\<close> stands for \<^verbatim>\<open>continue\<close>,
  otherwise the result is \<^verbatim>\<open>day_info\<close> as it is when the final test is reached.
\<close>

definition item_info :: "node \<Rightarrow> day_info option" where
  "item_info item =
     (case find_tag item (ustr ''div'') (Some (ustr ''js-ao-common-accordion__title'')) of
        Some title_elem \<Rightarrow>
          (let title_text = title_text_of title_elem
           in case re_search_day title_text of
                Some digits \<Rightarrow>
                  Some \<lparr>icon = [], day = digits, title = re_sub_day title_text, image = [],
                        body = body_of item\<rparr>
              | None \<Rightarrow> None)
      | None \<Rightarrow> None)"

text \<open>The loop over \<^verbatim>\<open>day_items\<close>, with the list \<^verbatim>\<open>itinerary_items\<close> it appends to.\<close>

fun days_loop :: "node list \<Rightarrow> day_info list \<Rightarrow> day_info list" where
  "days_loop [] itinerary_items = itinerary_items"
| "days_loop (item # day_items) itinerary_items =
     (case item_info item of
        None \<Rightarrow> days_loop day_items itinerary_items
      | Some info \<Rightarrow>
          if title info \<noteq> [] \<and> body info \<noteq> []
          then days_loop day_items (itinerary_items @ [info])
          else days_loop day_items itinerary_items)"

definition parse_itinerary_days :: "node \<Rightarrow> day_info list" where
  "parse_itinerary_days soup =
     (case find_tag soup (ustr ''section'') (Some (ustr ''ao-clp-custom-tdp-itinerary'')) of
        None \<Rightarrow> []
      | Some itinerary_section \<Rightarrow>
          days_loop
            (find_all itinerary_section (ustr ''li'') (Some (ustr ''js-ao-common-accordion''))) [])"

section \<open>The extraction as a whole\<close>

record tour_record =
  summary :: "ustring list"
  itinerary :: "day_info list"

text \<open>What \<^verbatim>\<open>scrape_tour_info\<close> builds once the page is fetched and parsed.\<close>

definition scrape_tour_info :: "node \<Rightarrow> tour_record" where
  "scrape_tour_info soup =
     \<lparr>summary = parse_itinerary_description soup, itinerary = parse_itinerary_days soup\<rparr>"

text \<open>
  What an item adds to the result: its \<^verbatim>\<open>day_info\<close> when the final test
  \<^verbatim>\<open>day_info['title'] and day_info['body']\<close> lets it through.
\<close>

definition surviving :: "node \<Rightarrow> day_info option" where
  "surviving item =
     (case item_info item of
        None \<Rightarrow> None
      | Some info \<Rightarrow> if title info \<noteq> [] \<and> body info \<noteq> [] then Some info else None)"

section \<open>Readings of the specification that the code is compared with\<close>

text \<open>
  The specification's words for the arrow text: the first occurrence of the substring is
  removed, later ones stay.
\<close>

fun remove_first :: "ustring \<Rightarrow> ustring \<Rightarrow> ustring" where
  "remove_first old [] = []"
| "remove_first old (c # cs) =
     (if old \<noteq> [] \<and> take (length old) (c # cs) = old then drop (length old) (c # cs)
      else c # remove_first old cs)"

definition title_text_first_only :: "node \<Rightarrow> ustring" where
  "title_text_first_only title_elem =
     (let title_text = get_text title_elem;
          title_text =
            (case find_tag title_elem (ustr ''div'') (Some (ustr ''ao-common-accordion__arrow'')) of
               Some arrow_elem \<Rightarrow> strip (remove_first (get_text arrow_elem) title_text)
             | None \<Rightarrow> title_text)
      in clean_str title_text)"

text \<open>
  The specification's words for the body: the paragraphs are the paragraph children of the
  content node.
\<close>

fun children :: "node \<Rightarrow> node list" where
  "children (Text s) = []"
| "children (Element t cl cs) = cs"

definition body_of_children :: "node \<Rightarrow> ustring" where
  "body_of_children item =
     (case find_tag item (ustr ''div'') (Some (ustr ''ao-common-accordion__bottom-content'')) of
        Some content_elem \<Rightarrow>
          (let paragraphs = filter (has_marker (ustr ''p'') None) (children content_elem);
               body_text =
                 (if paragraphs \<noteq> [] then join (ustr '' '') (map get_text paragraphs)
                  else get_text content_elem)
           in clean_str body_text)
      | None \<Rightarrow> [])"

section \<open>Example documents\<close>

definition tag :: "string \<Rightarrow> string list \<Rightarrow> node list \<Rightarrow> node" where
  "tag t cl cs = Element (ustr t) (map ustr cl) cs"

definition str :: "string \<Rightarrow> node" where
  "str s = Text (ustr s)"

text \<open>A list item of the accordion with a title and the children of its content node.\<close>

definition day_item :: "string \<Rightarrow> node list \<Rightarrow> node" where
  "day_item t b =
     tag ''li'' [''js-ao-common-accordion'']
       [tag ''div'' [''js-ao-common-accordion__title''] [str t],
        tag ''div'' [''ao-common-accordion__bottom-content''] b]"

definition itinerary_doc :: "node list \<Rightarrow> node" where
  "itinerary_doc items =
     tag ''[document]'' [] [tag ''section'' [''ao-clp-custom-tdp-itinerary''] items]"

definition description_div :: node where
  "description_div =
     tag ''div'' [''ao-clp-custom-tdp-itinerary__description'']
       [str ''Visit Hanoi. See the lake. Enjoy.'']"

definition summary_doc :: node where
  "summary_doc = tag ''[document]'' [] [description_div]"

definition empty_doc :: node where
  "empty_doc = tag ''[document]'' [] []"

definition hanoi_item :: node where
  "hanoi_item = day_item ''Day 1: Hanoi'' [tag ''p'' [] [str ''Arrive.'']]"

definition halong_item :: node where
  "halong_item = day_item ''Day 2: Halong Bay'' [tag ''p'' [] [str ''Cruise.'']]"

text \<open>A title that holds the pattern, but not at its start.\<close>

definition trip_item :: node where
  "trip_item = day_item ''Trip Day 3: Hanoi'' [tag ''p'' [] [str ''Arrive.'']]"

text \<open>A day whose content node is empty.\<close>

definition hue_item :: node where
  "hue_item = day_item ''Day 3: Hue'' []"

text \<open>A title node whose own text holds the arrow's text, followed by the arrow node.\<close>

definition arrow_div :: node where
  "arrow_div = tag ''div'' [''ao-common-accordion__arrow''] [str ''>'']"

definition arrow_title :: node where
  "arrow_title = tag ''div'' [''js-ao-common-accordion__title''] [str ''Day 1: A>B'', arrow_div]"

text \<open>A content node with a string of its own and a paragraph one level further down.\<close>

definition nested_content :: node where
  "nested_content =
     tag ''div'' [''ao-common-accordion__bottom-content'']
       [str ''X'', tag ''div'' [] [tag ''p'' [] [str ''A'']]]"

definition nested_item :: node where
  "nested_item =
     tag ''li'' [''js-ao-common-accordion'']
       [tag ''div'' [''js-ao-common-accordion__title''] [str ''Day 1: Hanoi''], nested_content]"

section \<open>Facts about the text functions\<close>

lemmas doc_defs =
  tag_def str_def day_item_def itinerary_doc_def description_div_def summary_doc_def
  empty_doc_def hanoi_item_def halong_item_def trip_item_def hue_item_def arrow_div_def
  arrow_title_def nested_content_def nested_item_def

lemmas query_defs = find_tag_def find_all_def has_marker_def get_text_def all_strings_def

lemmas text_defs = ustr_def strip_def isspace_def isdecimal_def decimal_zeros_def

lemma replace_from_single:
  "replace_from [u] a s = concat (map (\<lambda>c. if c = u then a else [c]) s)"
  by (induction s) simp_all

lemma replace_single:
  "replace s [u] a = concat (map (\<lambda>c. if c = u then a else [c]) s)"
  by (simp add: replace_def replace_from_single)

lemma concat_map_concat_map:
  "concat (map f (concat (map g s))) = concat (map (\<lambda>c. concat (map f (g c))) s)"
  by (induction s) simp_all

lemma clean_str_concat: "clean_str s = concat (map ascii_of s)"
proof -
  have "foldl (\<lambda>t (unicode_char, ascii_char). replace t [unicode_char] ascii_char) s replacements
        = concat (map ascii_of s)"
    unfolding replacements_def foldl.simps prod.case replace_single concat_map_concat_map
    by (rule arg_cong [where f = concat], rule map_cong [OF refl]) (simp add: ascii_of_def)
  then show ?thesis by (simp add: clean_str_def)
qed

lemma ascii_of_not_targeted: "set (ascii_of c) \<inter> targeted = {}"
  by (simp add: ascii_of_def targeted_def)

lemma ascii_of_fixed: "c \<notin> targeted \<Longrightarrow> ascii_of c = [c]"
  by (simp add: ascii_of_def targeted_def)

lemma clean_str_not_targeted: "set (clean_str s) \<inter> targeted = {}"
  unfolding clean_str_concat using ascii_of_not_targeted by auto

lemma clean_str_fixed: "set s \<inter> targeted = {} \<Longrightarrow> clean_str s = s"
  unfolding clean_str_concat by (induction s) (simp_all add: ascii_of_fixed)

lemma split_without_sep: "w \<in> set (split s sep) \<Longrightarrow> sep \<notin> set w"
proof (induction s arbitrary: w)
  case Nil
  then show ?case by simp
next
  case (Cons c cs)
  show ?case
  proof (cases "c = sep")
    case True
    with Cons show ?thesis by auto
  next
    case False
    with Cons show ?thesis by (cases "split cs sep") auto
  qed
qed

lemma set_strip: "set (strip s) \<subseteq> set s"
proof
  fix x
  assume "x \<in> set (strip s)"
  then have "x \<in> set (dropWhile isspace (rev (dropWhile isspace s)))"
    by (simp add: strip_def)
  then have "x \<in> set (rev (dropWhile isspace s))"
    by (rule set_dropWhileD)
  then have "x \<in> set (dropWhile isspace s)"
    by simp
  then show "x \<in> set s"
    by (rule set_dropWhileD)
qed

lemma join_nonempty: "xs \<noteq> [] \<Longrightarrow> \<forall>x \<in> set xs. x \<noteq> [] \<Longrightarrow> join sep xs \<noteq> []"
  by (induction sep xs rule: join.induct) simp_all

lemma last_join:
  "xs \<noteq> [] \<Longrightarrow> \<forall>x \<in> set xs. x \<noteq> [] \<Longrightarrow> last (join sep xs) = last (last xs)"
proof (induction sep xs rule: join.induct)
  case (3 sep x y ys)
  then have "join sep (y # ys) \<noteq> []" by (intro join_nonempty) simp_all
  with 3 show ?case by simp
qed simp_all

section \<open>Facts about the loop\<close>

lemma days_loop_map_filter:
  "days_loop day_items acc = acc @ List.map_filter surviving day_items"
  by (induction day_items arbitrary: acc)
     (simp_all add: surviving_def split: option.split)

lemma surviving_fields: "surviving item = Some info \<Longrightarrow> title info \<noteq> [] \<and> body info \<noteq> []"
  by (auto simp: surviving_def split: option.splits if_splits)

lemma item_info_body: "item_info item = Some info \<Longrightarrow> body info = body_of item"
  by (auto simp: item_info_def Let_def split: option.splits)

lemma surviving_empty_body: "body_of item = [] \<Longrightarrow> surviving item = None"
  by (auto simp: surviving_def dest: item_info_body split: option.splits)

lemmas extractor_defs =
  parse_itinerary_description_def parse_itinerary_days_def item_info_def title_text_of_def
  body_of_def match_day_def re_sub_day_def clean_str_concat ascii_of_def

section \<open>The claims\<close>

text \<open>
  C1. The claim: the cleaned title is matched against \<^verbatim>\<open>Day <digits>:\<close> anchored at the start,
  and a candidate whose title does not begin with the pattern is discarded. The code
  searches the pattern anywhere in the title (\<^verbatim>\<open>re.search\<close>), while the removal of the
  prefix is anchored: the title \<^verbatim>\<open>Trip Day 3: Hanoi\<close> does not begin with the pattern, yet
  the item is kept, with day \<^verbatim>\<open>3\<close> and the whole text, prefix included, as its title.
\<close>

theorem day_pattern_not_anchored:
  "match_day (ustr ''Trip Day 3: Hanoi'') = None \<and>
   parse_itinerary_days (itinerary_doc [trip_item]) =
     [\<lparr>icon = [], day = ustr ''3'', title = ustr ''Trip Day 3: Hanoi'', image = [],
       body = ustr ''Arrive.''\<rparr>]"
  by (simp add: extractor_defs doc_defs query_defs text_defs)

text \<open>
  C2, as stated: only the first occurrence of the arrow text is removed from the title
  text. It fails: the title text \<^verbatim>\<open>Day 1: A>B>\<close> with the arrow text \<^verbatim>\<open>>\<close> becomes
  \<^verbatim>\<open>Day 1: AB\<close>, not \<^verbatim>\<open>Day 1: AB>\<close>.
\<close>

theorem arrow_first_occurrence_counterexample:
  "get_text arrow_title = ustr ''Day 1: A>B>'' \<and>
   title_text_of arrow_title = ustr ''Day 1: AB'' \<and>
   title_text_first_only arrow_title = ustr ''Day 1: AB>'' \<and>
   title_text_of arrow_title \<noteq> title_text_first_only arrow_title"
  by (simp add: title_text_first_only_def replace_def extractor_defs doc_defs query_defs text_defs)

text \<open>
  C2, amended: when the title node contains an arrow node, every occurrence of the arrow
  text met when scanning the title text from the left is removed, before trimming and
  normalization; for an arrow text of one code point, no occurrence of it is left.
\<close>

theorem arrow_text_removed_everywhere:
  assumes "find_tag title_elem (ustr ''div'') (Some (ustr ''ao-common-accordion__arrow'')) =
             Some arrow_elem"
  shows "title_text_of title_elem =
           clean_str (strip (replace (get_text title_elem) (get_text arrow_elem) [])) \<and>
         (get_text arrow_elem = [c] \<longrightarrow>
            title_text_of title_elem =
              clean_str (strip (filter (\<lambda>x. x \<noteq> c) (get_text title_elem))))"
proof -
  have "replace s [c] [] = filter (\<lambda>x. x \<noteq> c) s" for s
    unfolding replace_single by (induction s) simp_all
  with assms show ?thesis
    by (simp add: title_text_of_def)
qed

theorem arrow_text_removed_everywhere_witness:
  "find_tag arrow_title (ustr ''div'') (Some (ustr ''ao-common-accordion__arrow'')) =
     Some arrow_div \<and>
   get_text arrow_div = [0x3E] \<and>
   title_text_of arrow_title =
     clean_str (strip (filter (\<lambda>x. x \<noteq> 0x3E) (get_text arrow_title)))"
proof -
  have h: "find_tag arrow_title (ustr ''div'') (Some (ustr ''ao-common-accordion__arrow'')) =
             Some arrow_div"
    by (simp add: doc_defs query_defs ustr_def)
  have g: "get_text arrow_div = [0x3E]"
    by (simp add: doc_defs query_defs text_defs)
  from arrow_text_removed_everywhere [OF h, of "0x3E"] h g show ?thesis
    by blast
qed

text \<open>
  C3. Every entry that the day extractor returns has a non-empty title and a non-empty
  body; an item whose content node has no paragraph and no text of its own adds nothing to
  the result, whatever its title.
\<close>

theorem entries_have_title_and_body:
  "(\<forall>info \<in> set (parse_itinerary_days soup). title info \<noteq> [] \<and> body info \<noteq> []) \<and>
   (find_tag item (ustr ''div'') (Some (ustr ''ao-common-accordion__bottom-content'')) =
      Some content_elem \<and>
    find_all content_elem (ustr ''p'') None = [] \<and> get_text content_elem = [] \<longrightarrow>
      days_loop (before @ item # after) acc = days_loop (before @ after) acc)"
proof -
  have "title info \<noteq> [] \<and> body info \<noteq> []" if "info \<in> set (parse_itinerary_days soup)" for info
  proof -
    from that obtain items where "info \<in> set (List.map_filter surviving items)"
      by (auto simp: parse_itinerary_days_def days_loop_map_filter split: option.splits)
    then obtain x where "surviving x = Some info"
      by (auto simp: List.map_filter_def)
    then show ?thesis by (rule surviving_fields)
  qed
  moreover have "days_loop (before @ item # after) acc = days_loop (before @ after) acc"
    if "find_tag item (ustr ''div'') (Some (ustr ''ao-common-accordion__bottom-content'')) =
          Some content_elem"
      and "find_all content_elem (ustr ''p'') None = []" and "get_text content_elem = []"
  proof -
    from that have "body_of item = []"
      by (simp add: body_of_def clean_str_def)
    then have "surviving item = None"
      by (rule surviving_empty_body)
    then show ?thesis
      by (simp add: days_loop_map_filter List.map_filter_def)
  qed
  ultimately show ?thesis by blast
qed

theorem entries_have_title_and_body_witness:
  "\<lparr>icon = [], day = ustr ''1'', title = ustr ''Hanoi'', image = [], body = ustr ''Arrive.''\<rparr>
     \<in> set (parse_itinerary_days (itinerary_doc [hanoi_item, hue_item])) \<and>
   ustr ''Hanoi'' \<noteq> [] \<and> ustr ''Arrive.'' \<noteq> [] \<and>
   find_tag hue_item (ustr ''div'') (Some (ustr ''ao-common-accordion__bottom-content'')) =
     Some (tag ''div'' [''ao-common-accordion__bottom-content''] []) \<and>
   find_all (tag ''div'' [''ao-common-accordion__bottom-content''] []) (ustr ''p'') None = [] \<and>
   get_text (tag ''div'' [''ao-common-accordion__bottom-content''] []) = [] \<and>
   days_loop ([hanoi_item] @ hue_item # []) [] = days_loop ([hanoi_item] @ []) []"
proof -
  let ?e = "\<lparr>icon = [], day = ustr ''1'', title = ustr ''Hanoi'', image = [],
             body = ustr ''Arrive.''\<rparr>"
  let ?c = "tag ''div'' [''ao-common-accordion__bottom-content''] []"
  have m: "?e \<in> set (parse_itinerary_days (itinerary_doc [hanoi_item, hue_item]))"
    by (simp add: extractor_defs doc_defs query_defs text_defs)
  have f: "find_tag hue_item (ustr ''div'') (Some (ustr ''ao-common-accordion__bottom-content'')) =
             Some ?c"
    by (simp add: doc_defs query_defs ustr_def)
  have p: "find_all ?c (ustr ''p'') None = []"
    by (simp add: doc_defs query_defs)
  have g: "get_text ?c = []"
    by (simp add: doc_defs query_defs)
  note t = entries_have_title_and_body
             [of "itinerary_doc [hanoi_item, hue_item]" hue_item ?c "[hanoi_item]" "[]" "[]"]
  from t m have "title ?e \<noteq> [] \<and> body ?e \<noteq> []"
    by blast
  then have n: "ustr ''Hanoi'' \<noteq> [] \<and> ustr ''Arrive.'' \<noteq> []"
    by simp
  from t f p g
  have d: "days_loop ([hanoi_item] @ hue_item # []) [] = days_loop ([hanoi_item] @ []) []"
    by blast
  from m n f p g d show ?thesis
    by blast
qed

text \<open>
  C4. The normalizer replaces every targeted code point with its ASCII replacement and
  changes nothing else: its result is the concatenation of \<open>ascii_of\<close> over the code points
  of the input. The result holds no targeted code point, a text without targeted code
  points (the empty one too) is returned as it is, and so is \<^verbatim>\<open>None\<close>. The model has no
  error value, as the code has no statement that raises.
\<close>

theorem clean_text_replaces:
  "clean_text None = None \<and>
   clean_text (Some s) = Some (concat (map ascii_of s)) \<and>
   set (clean_str s) \<inter> targeted = {} \<and>
   (set s \<inter> targeted = {} \<longrightarrow> clean_text (Some s) = Some s) \<and>
   clean_text (Some []) = Some [] \<and>
   clean_str [0x2013] = [0x2D] \<and> clean_str [0x2014] = [0x2D] \<and>
   clean_str [0x2018] = [0x27] \<and> clean_str [0x2019] = [0x27] \<and>
   clean_str [0x201C] = [0x22] \<and> clean_str [0x201D] = [0x22] \<and>
   clean_str [0x2026] = [0x2E, 0x2E, 0x2E]"
  by (simp add: clean_text_def clean_str_not_targeted clean_str_fixed)
     (simp add: clean_str_concat ascii_of_def)

theorem clean_text_replaces_witness:
  "set (ustr ''Day 1: Hanoi'') \<inter> targeted = {} \<and>
   clean_text (Some (ustr ''Day 1: Hanoi'')) = Some (ustr ''Day 1: Hanoi'')"
proof -
  have h: "set (ustr ''Day 1: Hanoi'') \<inter> targeted = {}"
    by (simp add: ustr_def targeted_def)
  with clean_text_replaces [of "ustr ''Day 1: Hanoi''"] show ?thesis
    by blast
qed

text \<open>
  C5. When the description container is present, the summary is the one-element list
  holding the fragments of the normalized container text between periods, trimmed, the
  empty ones dropped, joined with a period and a space. It never ends with a period. For
  the container text \<^verbatim>\<open>Visit Hanoi. See the lake. Enjoy.\<close> it is
  \<^verbatim>\<open>Visit Hanoi. See the lake. Enjoy\<close>.
\<close>

theorem description_present:
  assumes "find_tag soup (ustr ''div'') (Some (ustr ''ao-clp-custom-tdp-itinerary__description'')) =
             Some description_elem"
  shows "parse_itinerary_description soup =
           [join (ustr ''. '')
              (filter (\<lambda>s. s \<noteq> [])
                 (map strip (split (clean_str (get_text description_elem)) 0x2E)))] \<and>
         (\<forall>x. parse_itinerary_description soup = [x] \<and> x \<noteq> [] \<longrightarrow> last x \<noteq> 0x2E) \<and>
         (get_text description_elem = ustr ''Visit Hanoi. See the lake. Enjoy.'' \<longrightarrow>
            parse_itinerary_description soup = [ustr ''Visit Hanoi. See the lake. Enjoy''])"
proof -
  let ?sentences = "filter (\<lambda>s. s \<noteq> [])
                      (map strip (split (clean_str (get_text description_elem)) 0x2E))"
  have eq: "parse_itinerary_description soup = [join (ustr ''. '') ?sentences]"
    using assms by (simp add: parse_itinerary_description_def)
  have no_period: "last (join (ustr ''. '') ?sentences) \<noteq> 0x2E"
    if "join (ustr ''. '') ?sentences \<noteq> []"
  proof -
    from that have ne: "?sentences \<noteq> []"
      by auto
    have all: "\<forall>x \<in> set ?sentences. x \<noteq> []"
      by simp
    from ne have "last ?sentences \<in> set ?sentences"
      by (rule last_in_set)
    then obtain w where w: "w \<in> set (split (clean_str (get_text description_elem)) 0x2E)"
      and l: "last ?sentences = strip w" and n: "strip w \<noteq> []"
      by auto
    from n have "last (strip w) \<in> set (strip w)"
      by (rule last_in_set)
    with set_strip have "last (strip w) \<in> set w"
      by blast
    with split_without_sep [OF w] have "last (strip w) \<noteq> 0x2E"
      by auto
    with last_join [OF ne all] l show ?thesis
      by simp
  qed
  have example: "parse_itinerary_description soup = [ustr ''Visit Hanoi. See the lake. Enjoy'']"
    if "get_text description_elem = ustr ''Visit Hanoi. See the lake. Enjoy.''"
    unfolding eq that by (simp add: clean_str_concat ascii_of_def text_defs)
  from eq no_period example show ?thesis
    by simp
qed

theorem description_present_witness:
  "find_tag summary_doc (ustr ''div'') (Some (ustr ''ao-clp-custom-tdp-itinerary__description'')) =
     Some description_div \<and>
   get_text description_div = ustr ''Visit Hanoi. See the lake. Enjoy.'' \<and>
   parse_itinerary_description summary_doc = [ustr ''Visit Hanoi. See the lake. Enjoy'']"
proof -
  have h: "find_tag summary_doc (ustr ''div'')
             (Some (ustr ''ao-clp-custom-tdp-itinerary__description'')) = Some description_div"
    by (simp add: doc_defs query_defs ustr_def)
  have g: "get_text description_div = ustr ''Visit Hanoi. See the lake. Enjoy.''"
    by (simp add: doc_defs query_defs text_defs)
  from description_present [OF h] h g show ?thesis
    by blast
qed

text \<open>
  C6. When the description container is absent, the summary extractor returns the list
  whose only element is the empty string; in every case its result has one element.
\<close>

theorem description_absent:
  "(find_tag soup (ustr ''div'') (Some (ustr ''ao-clp-custom-tdp-itinerary__description'')) = None
      \<longrightarrow> parse_itinerary_description soup = [[]]) \<and>
   length (parse_itinerary_description soup) = 1"
  by (simp add: parse_itinerary_description_def Let_def split: option.split)

theorem description_absent_witness:
  "find_tag empty_doc (ustr ''div'') (Some (ustr ''ao-clp-custom-tdp-itinerary__description'')) =
     None \<and>
   parse_itinerary_description empty_doc = [[]]"
proof -
  have h: "find_tag empty_doc (ustr ''div'')
             (Some (ustr ''ao-clp-custom-tdp-itinerary__description'')) = None"
    by (simp add: doc_defs query_defs)
  with description_absent [of empty_doc] show ?thesis
    by blast
qed

text \<open>
  C7, as stated: the paragraphs are the paragraph children of the content node. It fails
  when a paragraph lies deeper: for a content node with the string \<^verbatim>\<open>X\<close> and a paragraph
  \<^verbatim>\<open>A\<close> inside a nested \<^verbatim>\<open>div\<close>, there is no paragraph child, so the body would be the full
  text \<^verbatim>\<open>XA\<close>; the code finds the paragraph and the body is \<^verbatim>\<open>A\<close>.
\<close>

theorem paragraph_children_counterexample:
  "find_tag nested_item (ustr ''div'') (Some (ustr ''ao-common-accordion__bottom-content'')) =
     Some nested_content \<and>
   filter (has_marker (ustr ''p'') None) (children nested_content) = [] \<and>
   get_text nested_content = ustr ''XA'' \<and>
   body_of_children nested_item = ustr ''XA'' \<and>
   body_of nested_item = ustr ''A'' \<and>
   body_of nested_item \<noteq> body_of_children nested_item"
  by (simp add: body_of_children_def extractor_defs doc_defs query_defs text_defs)

text \<open>
  C7, amended: with a content node, the body is the normalized text obtained from the
  paragraphs found anywhere below the content node, in document order: their trimmed
  texts joined with single spaces when there is at least one, the full trimmed text of
  the content node otherwise. Without a content node the body is empty. The body holds
  no targeted code point.
\<close>

theorem body_from_paragraphs_below_content:
  "(find_tag item (ustr ''div'') (Some (ustr ''ao-common-accordion__bottom-content'')) =
      Some content_elem \<longrightarrow>
      body_of item =
        clean_str
          (if filter (has_marker (ustr ''p'') None) (descendants content_elem) \<noteq> []
           then join (ustr '' '')
                  (map get_text (filter (has_marker (ustr ''p'') None) (descendants content_elem)))
           else get_text content_elem)) \<and>
   (find_tag item (ustr ''div'') (Some (ustr ''ao-common-accordion__bottom-content'')) = None
      \<longrightarrow> body_of item = []) \<and>
   (item_info item = Some info \<longrightarrow> body info = body_of item) \<and>
   set (body_of item) \<inter> targeted = {}"
proof -
  have "set (body_of item) \<inter> targeted = {}"
    unfolding body_of_def Let_def
    by (cases "find_tag item (ustr ''div'') (Some (ustr ''ao-common-accordion__bottom-content''))")
       (simp_all add: clean_str_not_targeted)
  then show ?thesis
    by (simp add: body_of_def find_all_def Let_def item_info_body)
qed

theorem body_from_paragraphs_below_content_witness:
  "find_tag nested_item (ustr ''div'') (Some (ustr ''ao-common-accordion__bottom-content'')) =
     Some nested_content \<and>
   filter (has_marker (ustr ''p'') None) (descendants nested_content) =
     [tag ''p'' [] [str ''A'']] \<and>
   body_of nested_item = clean_str (join (ustr '' '') (map get_text [tag ''p'' [] [str ''A'']]))"
proof -
  have h: "find_tag nested_item (ustr ''div'')
             (Some (ustr ''ao-common-accordion__bottom-content'')) = Some nested_content"
    by (simp add: doc_defs query_defs ustr_def)
  have p: "filter (has_marker (ustr ''p'') None) (descendants nested_content) =
             [tag ''p'' [] [str ''A'']]"
    by (simp add: doc_defs query_defs ustr_def)
  from body_from_paragraphs_below_content [of nested_item nested_content] h
  have "body_of nested_item =
          clean_str
            (if filter (has_marker (ustr ''p'') None) (descendants nested_content) \<noteq> []
             then join (ustr '' '')
                    (map get_text
                       (filter (has_marker (ustr ''p'') None) (descendants nested_content)))
             else get_text nested_content)"
    by blast
  with p have "body_of nested_item =
                 clean_str (join (ustr '' '') (map get_text [tag ''p'' [] [str ''A'']]))"
    by simp
  with h p show ?thesis
    by blast
qed

text \<open>
  C8. The entries come in the order in which the list items were enumerated: the result
  is the list of what each item adds, item after item, with nothing moved. For two items
  titled \<^verbatim>\<open>Day 1: Hanoi\<close> and \<^verbatim>\<open>Day 2: Halong Bay\<close> with non-empty bodies, the result has two
  entries, with days \<^verbatim>\<open>1\<close>, \<^verbatim>\<open>2\<close> and titles \<^verbatim>\<open>Hanoi\<close>, \<^verbatim>\<open>Halong Bay\<close>.
\<close>

theorem days_in_document_order:
  assumes "find_tag soup (ustr ''section'') (Some (ustr ''ao-clp-custom-tdp-itinerary'')) =
             Some itinerary_section"
  shows "parse_itinerary_days soup =
           List.map_filter surviving
             (find_all itinerary_section (ustr ''li'') (Some (ustr ''js-ao-common-accordion''))) \<and>
         (find_all itinerary_section (ustr ''li'') (Some (ustr ''js-ao-common-accordion'')) =
            [item1, item2] \<and>
          find_tag item1 (ustr ''div'') (Some (ustr ''js-ao-common-accordion__title'')) = Some title1 \<and>
          find_tag item2 (ustr ''div'') (Some (ustr ''js-ao-common-accordion__title'')) = Some title2 \<and>
          title_text_of title1 = ustr ''Day 1: Hanoi'' \<and>
          title_text_of title2 = ustr ''Day 2: Halong Bay'' \<and>
          body_of item1 \<noteq> [] \<and> body_of item2 \<noteq> [] \<longrightarrow>
            parse_itinerary_days soup =
              [\<lparr>icon = [], day = ustr ''1'', title = ustr ''Hanoi'', image = [],
                body = body_of item1\<rparr>,
               \<lparr>icon = [], day = ustr ''2'', title = ustr ''Halong Bay'', image = [],
                body = body_of item2\<rparr>])"
proof -
  have eq: "parse_itinerary_days soup =
              List.map_filter surviving
                (find_all itinerary_section (ustr ''li'') (Some (ustr ''js-ao-common-accordion'')))"
    using assms by (simp add: parse_itinerary_days_def days_loop_map_filter)
  have s1: "re_search_day (ustr ''Day 1: Hanoi'') = Some (ustr ''1'')"
    by (simp add: match_day_def text_defs)
  have s2: "re_search_day (ustr ''Day 2: Halong Bay'') = Some (ustr ''2'')"
    by (simp add: match_day_def text_defs)
  have r1: "re_sub_day (ustr ''Day 1: Hanoi'') = ustr ''Hanoi''"
    by (simp add: re_sub_day_def match_day_def text_defs)
  have r2: "re_sub_day (ustr ''Day 2: Halong Bay'') = ustr ''Halong Bay''"
    by (simp add: re_sub_day_def match_day_def text_defs)
  have n1: "ustr ''Hanoi'' \<noteq> []" and n2: "ustr ''Halong Bay'' \<noteq> []"
    by (simp_all add: ustr_def)
  show ?thesis
    unfolding eq
    by (simp add: surviving_def item_info_def s1 s2 r1 r2 n1 n2)
qed

theorem days_in_document_order_witness:
  "find_tag (itinerary_doc [hanoi_item, halong_item]) (ustr ''section'')
     (Some (ustr ''ao-clp-custom-tdp-itinerary'')) =
     Some (tag ''section'' [''ao-clp-custom-tdp-itinerary''] [hanoi_item, halong_item]) \<and>
   parse_itinerary_days (itinerary_doc [hanoi_item, halong_item]) =
     [\<lparr>icon = [], day = ustr ''1'', title = ustr ''Hanoi'', image = [], body = ustr ''Arrive.''\<rparr>,
      \<lparr>icon = [], day = ustr ''2'', title = ustr ''Halong Bay'', image = [],
       body = ustr ''Cruise.''\<rparr>] \<and>
   map day (parse_itinerary_days (itinerary_doc [halong_item, hanoi_item, halong_item])) =
     [ustr ''2'', ustr ''1'', ustr ''2'']"
proof -
  let ?sec = "tag ''section'' [''ao-clp-custom-tdp-itinerary''] [hanoi_item, halong_item]"
  let ?t1 = "tag ''div'' [''js-ao-common-accordion__title''] [str ''Day 1: Hanoi'']"
  let ?t2 = "tag ''div'' [''js-ao-common-accordion__title''] [str ''Day 2: Halong Bay'']"
  have h: "find_tag (itinerary_doc [hanoi_item, halong_item]) (ustr ''section'')
             (Some (ustr ''ao-clp-custom-tdp-itinerary'')) = Some ?sec"
    by (simp add: doc_defs query_defs ustr_def)
  have items: "find_all ?sec (ustr ''li'') (Some (ustr ''js-ao-common-accordion'')) =
                 [hanoi_item, halong_item]"
    by (simp add: doc_defs query_defs ustr_def)
  have t1: "find_tag hanoi_item (ustr ''div'') (Some (ustr ''js-ao-common-accordion__title'')) =
              Some ?t1"
    by (simp add: doc_defs query_defs ustr_def)
  have t2: "find_tag halong_item (ustr ''div'') (Some (ustr ''js-ao-common-accordion__title'')) =
              Some ?t2"
    by (simp add: doc_defs query_defs ustr_def)
  have x1: "title_text_of ?t1 = ustr ''Day 1: Hanoi''"
    by (simp add: extractor_defs doc_defs query_defs text_defs)
  have x2: "title_text_of ?t2 = ustr ''Day 2: Halong Bay''"
    by (simp add: extractor_defs doc_defs query_defs text_defs)
  have b1: "body_of hanoi_item = ustr ''Arrive.''"
    by (simp add: extractor_defs doc_defs query_defs text_defs)
  have b2: "body_of halong_item = ustr ''Cruise.''"
    by (simp add: extractor_defs doc_defs query_defs text_defs)
  have n: "ustr ''Arrive.'' \<noteq> []" "ustr ''Cruise.'' \<noteq> []"
    by (simp_all add: ustr_def)
  have o: "map day (parse_itinerary_days (itinerary_doc [halong_item, hanoi_item, halong_item])) =
             [ustr ''2'', ustr ''1'', ustr ''2'']"
    by (simp add: extractor_defs doc_defs query_defs text_defs)
  from b1 b2 n have nb: "body_of hanoi_item \<noteq> []" "body_of halong_item \<noteq> []"
    by simp_all
  from days_in_document_order [OF h, of hanoi_item halong_item ?t1 ?t2] items t1 t2 x1 x2 nb
  have "parse_itinerary_days (itinerary_doc [hanoi_item, halong_item]) =
          [\<lparr>icon = [], day = ustr ''1'', title = ustr ''Hanoi'', image = [],
            body = body_of hanoi_item\<rparr>,
           \<lparr>icon = [], day = ustr ''2'', title = ustr ''Halong Bay'', image = [],
            body = body_of halong_item\<rparr>]"
    by blast
  then have "parse_itinerary_days (itinerary_doc [hanoi_item, halong_item]) =
          [\<lparr>icon = [], day = ustr ''1'', title = ustr ''Hanoi'', image = [],
            body = ustr ''Arrive.''\<rparr>,
           \<lparr>icon = [], day = ustr ''2'', title = ustr ''Halong Bay'', image = [],
            body = ustr ''Cruise.''\<rparr>]"
    by (simp only: b1 b2)
  with h o show ?thesis
    by blast
qed

text \<open>
  C9. Without the itinerary container the day extractor returns the empty list. The
  extraction is a function from the parsed document to a record, with no error value, as
  the code has no statement that raises once the page is parsed; every missing marker gives
  an empty field or list: no container and no description give the record with the
  summary \<^verbatim>\<open>[""]\<close> and no entries, the summary always has one element, an item without
  title node is passed over, and an item without content node has an empty body.
\<close>

theorem absent_markers_degrade:
  "(find_tag soup (ustr ''section'') (Some (ustr ''ao-clp-custom-tdp-itinerary'')) = None \<longrightarrow>
      parse_itinerary_days soup = []) \<and>
   (find_tag soup (ustr ''section'') (Some (ustr ''ao-clp-custom-tdp-itinerary'')) = None \<and>
    find_tag soup (ustr ''div'') (Some (ustr ''ao-clp-custom-tdp-itinerary__description'')) = None
      \<longrightarrow> scrape_tour_info soup = \<lparr>summary = [[]], itinerary = []\<rparr>) \<and>
   length (summary (scrape_tour_info soup)) = 1 \<and>
   (find_tag item (ustr ''div'') (Some (ustr ''js-ao-common-accordion__title'')) = None \<longrightarrow>
      item_info item = None) \<and>
   (find_tag item (ustr ''div'') (Some (ustr ''ao-common-accordion__bottom-content'')) = None \<longrightarrow>
      body_of item = [])"
  by (simp add: scrape_tour_info_def parse_itinerary_days_def parse_itinerary_description_def
        item_info_def body_of_def Let_def split: option.split)

theorem absent_markers_degrade_witness:
  "find_tag empty_doc (ustr ''section'') (Some (ustr ''ao-clp-custom-tdp-itinerary'')) = None \<and>
   find_tag empty_doc (ustr ''div'') (Some (ustr ''ao-clp-custom-tdp-itinerary__description'')) =
     None \<and>
   parse_itinerary_days empty_doc = [] \<and>
   scrape_tour_info empty_doc = \<lparr>summary = [[]], itinerary = []\<rparr> \<and>
   find_tag empty_doc (ustr ''div'') (Some (ustr ''js-ao-common-accordion__title'')) = None \<and>
   item_info empty_doc = None \<and>
   find_tag empty_doc (ustr ''div'') (Some (ustr ''ao-common-accordion__bottom-content'')) = None \<and>
   body_of empty_doc = []"
proof -
  have h: "find_tag empty_doc t c = None" for t c
    by (simp add: doc_defs query_defs)
  from absent_markers_degrade [of empty_doc empty_doc] show ?thesis
    by (simp add: h)
qed

text \<open>
  C10. The normalizer is idempotent: normalizing a normalized text changes nothing, since
  no replacement holds a targeted code point.
\<close>

theorem clean_text_idempotent:
  "clean_str (clean_str s) = clean_str s \<and> clean_text (clean_text t) = clean_text t"
proof -
  have "clean_str (clean_str x) = clean_str x" for x
    by (rule clean_str_fixed) (rule clean_str_not_targeted)
  then show ?thesis
    by (simp add: clean_text_def split: option.split)
qed

end
